theory Spec2Isabelle
  imports Complex_Main "HOL-Library.Sublist" "HOL-Library.Multiset"
begin

section \<open>Student records: reducer, validation, derivation and view pipeline\<close>

text \<open>
  The development follows \<^verbatim>\<open>src/Component/Navbar.jsx\<close>: the \<^verbatim>\<open>Student\<close> component with
  its module-private \<^verbatim>\<open>reducer\<close>, \<^verbatim>\<open>calculatePercentage\<close>, \<^verbatim>\<open>getDivision\<close>,
  \<^verbatim>\<open>handleSubmit\<close> and \<^verbatim>\<open>filteredSortedData\<close>. Line numbers are those of that file.

  Conventions of the embedding.
  \<^item> A string is a \<^typ>\<open>string\<close>: a list of 8-bit characters, read as the code units
    U+0000 to U+00FF. Code units above U+00FF are outside the model.
  \<^item> A number is a \<open>jsnum\<close>: \<open>NaN\<close>, the two infinities, or an exact rational. The
    rounding of each arithmetic result to the nearest double, overflow to an infinity,
    underflow to zero and the sign of zero are not modelled.
  \<^item> An array is a list of slots, since an array of the source can have holes (a write
    beyond the end leaves them) and \<^verbatim>\<open>undefined\<close> elements (a spread turns holes into
    them), and the array methods treat the two differently.
  \<^item> A \<^verbatim>\<open>TypeError\<close> of the source is the value \<open>Inl TypeError\<close>.
  \<^item> Two functions of the host are parameters: \<open>ToString\<close>, the conversion of a number
    to a string (\<^verbatim>\<open>String(m)\<close>; it prints the shortest decimal that reads back as the
    same double), and \<open>localeCompare\<close>, the collation of the host's locale.
\<close>

subsection \<open>Numbers\<close>

datatype jsnum = NaN | PInf | NInf | Fin rat

text \<open>The relational operators: every comparison with \<open>NaN\<close> is false.\<close>

fun js_lt :: "jsnum \<Rightarrow> jsnum \<Rightarrow> bool" where
  "js_lt NaN _ = False"
| "js_lt _ NaN = False"
| "js_lt (Fin a) (Fin b) = (a < b)"
| "js_lt (Fin a) PInf = True"
| "js_lt (Fin a) NInf = False"
| "js_lt PInf _ = False"
| "js_lt NInf NInf = False"
| "js_lt NInf _ = True"


definition js_le :: "jsnum \<Rightarrow> jsnum \<Rightarrow> bool" where
  "js_le a b = (a \<noteq> NaN \<and> b \<noteq> NaN \<and> \<not> js_lt b a)"

definition js_ge :: "jsnum \<Rightarrow> jsnum \<Rightarrow> bool" where
  "js_ge a b = js_le b a"








subsection \<open>Arrays\<close>

text \<open>
  A slot of an array: a hole (no property at that index), the value \<^verbatim>\<open>undefined\<close>, or a
  proper value. Reading a hole gives \<^verbatim>\<open>undefined\<close> as well, but \<^verbatim>\<open>map\<close>, \<^verbatim>\<open>filter\<close>,
  \<^verbatim>\<open>some\<close> and \<^verbatim>\<open>reduce\<close> call their callback only at the indices that exist. (A \<^verbatim>\<open>null\<close>
  element, which a hole becomes in the stored JSON, behaves as \<^verbatim>\<open>undefined\<close> does on every
  path of the students array here.)
\<close>

datatype 'a slot = Hole | Undef | Val 'a

text \<open>The existing elements with their indices, \<open>None\<close> for \<^verbatim>\<open>undefined\<close>.\<close>

fun entries_from :: "nat \<Rightarrow> 'a slot list \<Rightarrow> (nat \<times> 'a option) list" where
  "entries_from i [] = []"
| "entries_from i (Hole # xs) = entries_from (Suc i) xs"
| "entries_from i (Undef # xs) = (i, None) # entries_from (Suc i) xs"
| "entries_from i (Val x # xs) = (i, Some x) # entries_from (Suc i) xs"

definition entries :: "'a slot list \<Rightarrow> (nat \<times> 'a option) list" where
  "entries xs = entries_from 0 xs"


fun to_slot :: "'a option \<Rightarrow> 'a slot" where
  "to_slot None = Undef"
| "to_slot (Some x) = Val x"

text \<open>\<^verbatim>\<open>[...xs]\<close>: the iterator reads every index below the length, so a hole is copied
  as \<^verbatim>\<open>undefined\<close>.\<close>

fun spread_slot :: "'a slot \<Rightarrow> 'a slot" where
  "spread_slot Hole = Undef"
| "spread_slot Undef = Undef"
| "spread_slot (Val x) = Val x"

definition spread :: "'a slot list \<Rightarrow> 'a slot list" where
  "spread xs = map spread_slot xs"

text \<open>\<^verbatim>\<open>xs[i]\<close> for an integer \<open>i\<close>; \<open>None\<close> is \<^verbatim>\<open>undefined\<close>.\<close>

definition array_get :: "'a slot list \<Rightarrow> int \<Rightarrow> 'a option" where
  "array_get xs i =
     (if 0 \<le> i \<and> nat i < length xs
      then (case xs ! nat i of Val x \<Rightarrow> Some x | _ \<Rightarrow> None)
      else None)"

text \<open>
  \<^verbatim>\<open>xs[k] = v\<close>, where the key \<open>k\<close> is \<^verbatim>\<open>null\<close> (\<open>None\<close>) or an integer. An integer from 0
  to \<open>2^32 - 2\<close> is an array index: within the length the slot is overwritten, beyond it
  the array grows and the slots in between are holes. Every other key names an ordinary
  property of the array object and leaves its elements and length as they are. (An
  array of the source has at most \<open>2^32 - 1\<close> elements, so an index within the length is
  always an array index.)
\<close>

definition array_set :: "'a slot list \<Rightarrow> int option \<Rightarrow> 'a \<Rightarrow> 'a slot list" where
  "array_set xs k v =
     (case k of
        None \<Rightarrow> xs
      | Some i \<Rightarrow>
          if 0 \<le> i \<and> nat i < length xs then xs[nat i := Val v]
          else if 0 \<le> i \<and> i < 4294967295 then xs @ replicate (nat i - length xs) Hole @ [Val v]
          else xs)"

text \<open>\<^verbatim>\<open>xs.map(f)\<close> for a callback of the element alone: holes stay holes.\<close>

fun map_slot :: "('a option \<Rightarrow> 'b) \<Rightarrow> 'a slot \<Rightarrow> 'b slot" where
  "map_slot f Hole = Hole"
| "map_slot f Undef = Val (f None)"
| "map_slot f (Val x) = Val (f (Some x))"

definition array_map :: "('a option \<Rightarrow> 'b) \<Rightarrow> 'a slot list \<Rightarrow> 'b slot list" where
  "array_map f xs = map (map_slot f) xs"



text \<open>\<^verbatim>\<open>xs.filter((_, i) => p(i))\<close>: the existing elements whose index passes, packed
  into a new array without holes.\<close>

definition array_filter_index :: "(nat \<Rightarrow> bool) \<Rightarrow> 'a slot list \<Rightarrow> 'a slot list" where
  "array_filter_index p xs = map (to_slot \<circ> snd) (filter (\<lambda>e. p (fst e)) (entries xs))"

text \<open>An array without holes and without \<^verbatim>\<open>undefined\<close> elements: a list of values.\<close>

definition dense :: "'a slot list \<Rightarrow> bool" where
  "dense xs = list_all (\<lambda>s. case s of Val x \<Rightarrow> True | _ \<Rightarrow> False) xs"

subsection \<open>Strings and their conversion to numbers\<close>













subsection \<open>Derivation: the percentage\<close>

definition digitChar :: "nat \<Rightarrow> char" where
  "digitChar d = char_of (48 + d)"

fun decDigits :: "nat \<Rightarrow> string" where
  "decDigits n = (if n < 10 then [digitChar n] else decDigits (n div 10) @ [digitChar (n mod 10)])"

declare decDigits.simps [simp del]




subsection \<open>Derivation: the division of a percentage\<close>

text \<open>
  \<^verbatim>\<open>getDivision(percent)\<close>, lines 105 to 110. Each \<^verbatim>\<open>>=\<close> converts its left operand to a
  number; the parameter here is that number.
\<close>

definition getDivision :: "jsnum \<Rightarrow> string" where
  "getDivision percent =
     (if js_ge percent (Fin 60) then ''First Division''
      else if js_ge percent (Fin 50) then ''Second Division''
      else if js_ge percent (Fin 35) then ''Pass''
      else ''Fail'')"

subsection \<open>Data model\<close>

text \<open>
  A student record as \<^verbatim>\<open>handleSubmit\<close> builds it (lines 143 to 149): the age is the draft's
  string, the marks are numbers, the percentage is the string that \<^verbatim>\<open>toFixed\<close> returns.
\<close>

record student =
  name :: string
  age :: string
  marks :: "jsnum slot list"
  percentage :: string
  division :: string

text \<open>A row of the displayed table: \<^verbatim>\<open>{ ...student, originalIndex }\<close>, line 168.\<close>

record row = student +
  originalIndex :: nat

text \<open>
  The state aggregate, \<^verbatim>\<open>initialState\<close> of lines 24 to 32. Its two arrays are values in
  a \<open>state\<close> and references in the store model further down.
\<close>

record ('m, 's) aggregate =
  name :: string
  age :: string
  marks :: 'm
  students :: 's
  editIndex :: "int option"
  searchTerm :: string
  sortKey :: string

type_synonym state = "(string slot list, student slot list) aggregate"

definition initialState :: state where
  "initialState =
     \<lparr>name = [], age = [], marks = replicate 5 (Val []), students = [],
      editIndex = None, searchTerm = [], sortKey = ''name''\<rparr>"

text \<open>
  The actions. The key of \<^verbatim>\<open>SET_FIELD\<close> is one of the four that the component dispatches
  (lines 195, 200, 229 and 235) and its value is the string of the input element; with
  another key the source would add or overwrite that property, for which the typed state
  has no place. An index is an integer. The payload of \<^verbatim>\<open>SET_STUDENTS\<close> is a parameter of
  the type: the array itself here, a reference to it in the store model below. An action
  whose type is none of the seven is \<open>OTHER\<close>.
\<close>

datatype field = NameField | AgeField | SearchTermField | SortKeyField

datatype 'p action =
    SET_FIELD field string
  | SET_MARK int string
  | SET_STUDENTS 'p
  | ADD_STUDENT student
  | UPDATE_STUDENT student
  | DELETE_STUDENT int
  | EDIT_STUDENT int
  | OTHER string

datatype error = TypeError

subsection \<open>The reducer\<close>

fun set_field :: "field \<Rightarrow> string \<Rightarrow> ('m, 's) aggregate \<Rightarrow> ('m, 's) aggregate" where
  "set_field NameField v s = s\<lparr>name := v\<rparr>"
| "set_field AgeField v s = s\<lparr>age := v\<rparr>"
| "set_field SearchTermField v s = s\<lparr>searchTerm := v\<rparr>"
| "set_field SortKeyField v s = s\<lparr>sortKey := v\<rparr>"

text \<open>\<^verbatim>\<open>String(m)\<close> as the callback of \<^verbatim>\<open>map\<close>.\<close>

fun StringOpt :: "(jsnum \<Rightarrow> string) \<Rightarrow> jsnum option \<Rightarrow> string" where
  "StringOpt ToString None = ''undefined''"
| "StringOpt ToString (Some m) = ToString m"

text \<open>
  \<^verbatim>\<open>reducer(state, action)\<close>, lines 35 to 83. In the \<^verbatim>\<open>EDIT_STUDENT\<close> case
  \<^verbatim>\<open>state.students[action.index]\<close> is \<^verbatim>\<open>undefined\<close> when the index is out of range or the
  slot holds no record, and reading \<^verbatim>\<open>student.name\<close> then throws a \<^verbatim>\<open>TypeError\<close>.
\<close>

fun reducer :: "(jsnum \<Rightarrow> string) \<Rightarrow> state \<Rightarrow> (student slot list) action \<Rightarrow> error + state" where
  "reducer ToString s (SET_FIELD f v) = Inr (set_field f v s)"
| "reducer ToString s (SET_MARK i v) =
     (let newMarks = spread (marks s);
          newMarks = array_set newMarks (Some i) v
      in Inr (s\<lparr>marks := newMarks\<rparr>))"
| "reducer ToString s (SET_STUDENTS payload) = Inr (s\<lparr>students := payload\<rparr>)"
| "reducer ToString s (ADD_STUDENT payload) =
     Inr (s\<lparr>students := spread (students s) @ [Val payload],
            name := [], age := [], marks := replicate 5 (Val []), editIndex := None\<rparr>)"
| "reducer ToString s (UPDATE_STUDENT payload) =
     (let updated = spread (students s);
          updated = array_set updated (editIndex s) payload
      in Inr (s\<lparr>students := updated,
               name := [], age := [], marks := replicate 5 (Val []), editIndex := None\<rparr>))"
| "reducer ToString s (DELETE_STUDENT i) =
     Inr (s\<lparr>students := array_filter_index (\<lambda>j. int j \<noteq> i) (students s)\<rparr>)"
| "reducer ToString s (EDIT_STUDENT i) =
     (case array_get (students s) i of
        None \<Rightarrow> Inl TypeError
      | Some student \<Rightarrow>
          Inr (s\<lparr>name := student.name student,
                 age := student.age student,
                 marks := array_map (StringOpt ToString) (student.marks student),
                 editIndex := Some i\<rparr>))"
| "reducer ToString s (OTHER t) = Inr s"

subsection \<open>Submitting the form\<close>






subsection \<open>Validation as the specification words it\<close>








subsection \<open>The view pipeline\<close>








text \<open>\<^verbatim>\<open>{ ...student, originalIndex }\<close>\<close>

definition annotate :: "student \<Rightarrow> nat \<Rightarrow> row" where
  "annotate st i =
     \<lparr>student.name = student.name st, age = student.age st, marks = student.marks st,
      percentage = student.percentage st, division = student.division st,
      originalIndex = i\<rparr>"




subsection \<open>The view pipeline as the specification words it\<close>











subsection \<open>Example records\<close>

text \<open>The two students of the end-to-end example, and a record with a given name.\<close>

definition studentA :: student where
  "studentA =
     \<lparr>student.name = ''A'', age = ''20'', marks = map (Val \<circ> Fin) [80, 70, 90, 60, 100],
      percentage = ''80.00'', division = ''First Division''\<rparr>"

definition studentB :: student where
  "studentB =
     \<lparr>student.name = ''B'', age = ''21'', marks = map (Val \<circ> Fin) [40, 40, 40, 40, 40],
      percentage = ''40.00'', division = ''Pass''\<rparr>"

definition named :: "string \<Rightarrow> student" where
  "named n = studentA\<lparr>student.name := n\<rparr>"

text \<open>
  A conversion of numbers to strings for the examples: it prints the integer part, which
  is what \<^verbatim>\<open>String(m)\<close> returns on the integers below \<open>10^21\<close>. The theorems hold for every
  conversion.
\<close>

definition integerString :: "jsnum \<Rightarrow> string" where
  "integerString x =
     (case x of
        NaN \<Rightarrow> ''NaN''
      | PInf \<Rightarrow> ''Infinity''
      | NInf \<Rightarrow> ''-Infinity''
      | Fin q \<Rightarrow> (if q < 0 then ''-'' else []) @ decDigits (nat \<lfloor>\<bar>q\<bar>\<rfloor>))"

subsection \<open>The reducer on a store\<close>

text \<open>
  The source works on references: a state aggregate is an object whose \<^verbatim>\<open>marks\<close> and
  \<^verbatim>\<open>students\<close> properties refer to array objects, the reducer allocates new objects and
  writes into arrays (\<^verbatim>\<open>newMarks[action.index] = ...\<close>, \<^verbatim>\<open>updated[state.editIndex] = ...\<close>).
  The store is the list of the objects allocated so far, a reference is a position in it,
  and an allocation appends. Student records are never written to by the reducer and stay
  values. The payload of \<^verbatim>\<open>SET_STUDENTS\<close> is a reference to an array of the store.
\<close>

datatype obj =
    StateObj "(nat, nat) aggregate"
  | MarksArr "string slot list"
  | StudentsArr "student slot list"

type_synonym store = "obj list"

definition alloc :: "store \<Rightarrow> obj \<Rightarrow> store \<times> nat" where
  "alloc h v = (h @ [v], length h)"

definition get_state :: "store \<Rightarrow> nat \<Rightarrow> (nat, nat) aggregate option" where
  "get_state h p =
     (if p < length h then (case h ! p of StateObj a \<Rightarrow> Some a | _ \<Rightarrow> None) else None)"

definition get_marks :: "store \<Rightarrow> nat \<Rightarrow> string slot list option" where
  "get_marks h p =
     (if p < length h then (case h ! p of MarksArr xs \<Rightarrow> Some xs | _ \<Rightarrow> None) else None)"

definition get_students :: "store \<Rightarrow> nat \<Rightarrow> student slot list option" where
  "get_students h p =
     (if p < length h then (case h ! p of StudentsArr xs \<Rightarrow> Some xs | _ \<Rightarrow> None) else None)"

text \<open>The assignments to an element of an array object, in place.\<close>

definition write_mark :: "store \<Rightarrow> nat \<Rightarrow> int option \<Rightarrow> string \<Rightarrow> store" where
  "write_mark h p k v =
     (case get_marks h p of None \<Rightarrow> h | Some xs \<Rightarrow> h[p := MarksArr (array_set xs k v)])"

definition write_student :: "store \<Rightarrow> nat \<Rightarrow> int option \<Rightarrow> student \<Rightarrow> store" where
  "write_student h p k v =
     (case get_students h p of None \<Rightarrow> h | Some xs \<Rightarrow> h[p := StudentsArr (array_set xs k v)])"

text \<open>
  \<^verbatim>\<open>reducer(state, action)\<close> once more, lines 35 to 83, with \<open>state\<close> a reference: the new
  store and the returned reference. The result is \<open>None\<close> when a reference of the
  arguments is not of its kind, which no store of the source allows.
\<close>

fun reducer_store ::
  "(jsnum \<Rightarrow> string) \<Rightarrow> store \<Rightarrow> nat \<Rightarrow> nat action \<Rightarrow> (error + store \<times> nat) option" where
  "reducer_store ToString h state (SET_FIELD f v) =
     (case get_state h state of
        None \<Rightarrow> None
      | Some s \<Rightarrow> Some (Inr (alloc h (StateObj (set_field f v s)))))"
| "reducer_store ToString h state (SET_MARK i v) =
     (case get_state h state of
        None \<Rightarrow> None
      | Some s \<Rightarrow>
          (case get_marks h (marks s) of
             None \<Rightarrow> None
           | Some ms \<Rightarrow>
               let (h, newMarks) = alloc h (MarksArr (spread ms));
                   h = write_mark h newMarks (Some i) v
               in Some (Inr (alloc h (StateObj (s\<lparr>marks := newMarks\<rparr>))))))"
| "reducer_store ToString h state (SET_STUDENTS payload) =
     (case get_state h state of
        None \<Rightarrow> None
      | Some s \<Rightarrow> Some (Inr (alloc h (StateObj (s\<lparr>students := payload\<rparr>)))))"
| "reducer_store ToString h state (ADD_STUDENT payload) =
     (case get_state h state of
        None \<Rightarrow> None
      | Some s \<Rightarrow>
          (case get_students h (students s) of
             None \<Rightarrow> None
           | Some xs \<Rightarrow>
               let (h, newStudents) = alloc h (StudentsArr (spread xs @ [Val payload]));
                   (h, newMarks) = alloc h (MarksArr (replicate 5 (Val [])))
               in Some (Inr (alloc h (StateObj (s\<lparr>students := newStudents,
                    name := [], age := [], marks := newMarks, editIndex := None\<rparr>))))))"
| "reducer_store ToString h state (UPDATE_STUDENT payload) =
     (case get_state h state of
        None \<Rightarrow> None
      | Some s \<Rightarrow>
          (case get_students h (students s) of
             None \<Rightarrow> None
           | Some xs \<Rightarrow>
               let (h, updated) = alloc h (StudentsArr (spread xs));
                   h = write_student h updated (editIndex s) payload;
                   (h, newMarks) = alloc h (MarksArr (replicate 5 (Val [])))
               in Some (Inr (alloc h (StateObj (s\<lparr>students := updated,
                    name := [], age := [], marks := newMarks, editIndex := None\<rparr>))))))"
| "reducer_store ToString h state (DELETE_STUDENT i) =
     (case get_state h state of
        None \<Rightarrow> None
      | Some s \<Rightarrow>
          (case get_students h (students s) of
             None \<Rightarrow> None
           | Some xs \<Rightarrow>
               let (h, filtered) = alloc h (StudentsArr (array_filter_index (\<lambda>j. int j \<noteq> i) xs))
               in Some (Inr (alloc h (StateObj (s\<lparr>students := filtered\<rparr>))))))"
| "reducer_store ToString h state (EDIT_STUDENT i) =
     (case get_state h state of
        None \<Rightarrow> None
      | Some s \<Rightarrow>
          (case get_students h (students s) of
             None \<Rightarrow> None
           | Some xs \<Rightarrow>
               (case array_get xs i of
                  None \<Rightarrow> Some (Inl TypeError)
                | Some student \<Rightarrow>
                    let (h, newMarks) =
                          alloc h (MarksArr (array_map (StringOpt ToString) (student.marks student)))
                    in Some (Inr (alloc h (StateObj (s\<lparr>name := student.name student,
                         age := student.age student, marks := newMarks, editIndex := Some i\<rparr>)))))))"
| "reducer_store ToString h state (OTHER t) =
     (case get_state h state of
        None \<Rightarrow> None
      | Some s \<Rightarrow> Some (Inr (h, state)))"

text \<open>The state that an aggregate of the store denotes, and an action with its payload
  read from the store.\<close>

definition state_at :: "store \<Rightarrow> nat \<Rightarrow> state option" where
  "state_at h p =
     (case get_state h p of
        None \<Rightarrow> None
      | Some s \<Rightarrow>
          (case (get_marks h (marks s), get_students h (students s)) of
             (Some ms, Some xs) \<Rightarrow>
               Some \<lparr>name = name s, age = age s, marks = ms, students = xs,
                      editIndex = editIndex s, searchTerm = searchTerm s, sortKey = sortKey s\<rparr>
           | _ \<Rightarrow> None))"

fun action_at :: "store \<Rightarrow> nat action \<Rightarrow> (student slot list) action option" where
  "action_at h (SET_FIELD f v) = Some (SET_FIELD f v)"
| "action_at h (SET_MARK i v) = Some (SET_MARK i v)"
| "action_at h (SET_STUDENTS payload) = map_option SET_STUDENTS (get_students h payload)"
| "action_at h (ADD_STUDENT payload) = Some (ADD_STUDENT payload)"
| "action_at h (UPDATE_STUDENT payload) = Some (UPDATE_STUDENT payload)"
| "action_at h (DELETE_STUDENT i) = Some (DELETE_STUDENT i)"
| "action_at h (EDIT_STUDENT i) = Some (EDIT_STUDENT i)"
| "action_at h (OTHER t) = Some (OTHER t)"

fun recognized :: "'p action \<Rightarrow> bool" where
  "recognized (OTHER t) = False"
| "recognized _ = True"

text \<open>A run of the reducer over a list of actions, stopping at the first error.\<close>

fun run :: "(jsnum \<Rightarrow> string) \<Rightarrow> state \<Rightarrow> (student slot list) action list \<Rightarrow> error + state" where
  "run ToString s [] = Inr s"
| "run ToString s (a # as) =
     (case reducer ToString s a of Inl e \<Rightarrow> Inl e | Inr s' \<Rightarrow> run ToString s' as)"

text \<open>A store for the examples: the two arrays and the aggregate of a state with the
  students A and B.\<close>

definition exampleStore :: store where
  "exampleStore =
     [MarksArr (replicate 5 (Val [])),
      StudentsArr [Val studentA, Val studentB],
      StateObj \<lparr>name = [], age = [], marks = 0, students = 1, editIndex = None,
                searchTerm = [], sortKey = ''name''\<rparr>]"

subsection \<open>A run that leaves a hole\<close>

text \<open>
  Two students are added, the second is opened for editing, both are deleted, and the
  form is submitted as an update: \<open>editIndex\<close> is still 1 while the array is empty, so the
  write of \<^verbatim>\<open>UPDATE_STUDENT\<close> lands beyond the end and leaves a hole at index 0. One more
  \<^verbatim>\<open>ADD_STUDENT\<close> copies the array by a spread and turns the hole into \<^verbatim>\<open>undefined\<close>. Every
  action of the run meets the precondition that the specification's table gives for it.
\<close>

definition staleEdit :: "(student slot list) action list" where
  "staleEdit =
     [ADD_STUDENT studentA, ADD_STUDENT studentB, EDIT_STUDENT 1, DELETE_STUDENT 0,
      DELETE_STUDENT 0, UPDATE_STUDENT studentB]"

definition sparseState :: state where
  "sparseState = initialState\<lparr>students := [Hole, Val studentB]\<rparr>"


section \<open>Verified properties\<close>

subsection \<open>The division classifier\<close>

lemma js_ge_Fin: "js_ge (Fin p) (Fin q) = (q \<le> p)"
  by (auto simp: js_ge_def js_le_def)

text \<open>
  Claim C2. For every numeric percentage \<open>p\<close> the classifier returns First Division when
  \<open>p \<ge> 60\<close>, Second Division when \<open>50 \<le> p < 60\<close>, Pass when \<open>35 \<le> p < 50\<close> and Fail
  otherwise (also for \<open>NaN\<close>); the six boundary values 59.99, 60.00, 49.99, 50.00, 34.99
  and 35.00 fall on the sides the table names.
\<close>

theorem getDivision_thresholds:
  "(60 \<le> p \<longrightarrow> getDivision (Fin p) = ''First Division'')
   \<and> (50 \<le> p \<and> p < 60 \<longrightarrow> getDivision (Fin p) = ''Second Division'')
   \<and> (35 \<le> p \<and> p < 50 \<longrightarrow> getDivision (Fin p) = ''Pass'')
   \<and> (p < 35 \<longrightarrow> getDivision (Fin p) = ''Fail'')
   \<and> getDivision NaN = ''Fail''
   \<and> getDivision PInf = ''First Division''
   \<and> getDivision NInf = ''Fail''
   \<and> getDivision (Fin (5999 / 100)) = ''Second Division''
   \<and> getDivision (Fin 60) = ''First Division''
   \<and> getDivision (Fin (4999 / 100)) = ''Pass''
   \<and> getDivision (Fin 50) = ''Second Division''
   \<and> getDivision (Fin (3499 / 100)) = ''Fail''
   \<and> getDivision (Fin 35) = ''Pass''"
  by (simp add: getDivision_def js_ge_def js_le_def)

theorem getDivision_thresholds_witness:
  "(60 \<le> (75::rat) \<and> getDivision (Fin 75) = ''First Division'')
   \<and> (50 \<le> (55::rat) \<and> (55::rat) < 60 \<and> getDivision (Fin 55) = ''Second Division'')
   \<and> (35 \<le> (40::rat) \<and> (40::rat) < 50 \<and> getDivision (Fin 40) = ''Pass'')
   \<and> ((20::rat) < 35 \<and> getDivision (Fin 20) = ''Fail'')"
  using getDivision_thresholds [of 75] getDivision_thresholds [of 55]
    getDivision_thresholds [of 40] getDivision_thresholds [of 20]
  by simp

subsection \<open>The percentage\<close>


lemma digitChar_values:
  "digitChar 0 = CHR ''0''" "digitChar 1 = CHR ''1''" "digitChar 2 = CHR ''2''"
  "digitChar 3 = CHR ''3''" "digitChar 4 = CHR ''4''" "digitChar 5 = CHR ''5''"
  "digitChar 6 = CHR ''6''" "digitChar 7 = CHR ''7''" "digitChar 8 = CHR ''8''"
  "digitChar 9 = CHR ''9''"
  unfolding digitChar_def by code_simp+




lemma decDigits_nonempty: "decDigits n \<noteq> []"
  by (subst decDigits.simps) simp























subsection \<open>The reducer on the students array\<close>

text \<open>
  An array without holes and without \<^verbatim>\<open>undefined\<close> elements is a list of records, \<open>dense\<close>:
  the spread is a plain copy of it. Without holes \<^verbatim>\<open>filter\<close> sees every index.
\<close>

lemma dense_map_Val: "dense xs \<Longrightarrow> \<exists>ys. xs = map Val ys"
proof (induction xs)
  case Nil
  then show ?case by simp
next
  case (Cons x xs)
  then obtain ys where "xs = map Val ys" by (auto simp: dense_def)
  moreover obtain y where "x = Val y" using Cons.prems by (cases x) (auto simp: dense_def)
  ultimately have "x # xs = map Val (y # ys)" by simp
  then show ?case by (rule exI)
qed

lemma dense_no_hole: "dense xs \<Longrightarrow> Hole \<notin> set xs"
  and dense_no_undefined: "dense xs \<Longrightarrow> Undef \<notin> set xs"
  by (auto simp: dense_def list_all_iff)

lemma spread_dense: "dense xs \<Longrightarrow> spread xs = xs"
  using dense_map_Val [of xs] by (auto simp: spread_def)

lemma length_spread [simp]: "length (spread xs) = length xs"
  by (simp add: spread_def)

lemma array_get_spread [simp]: "array_get (spread xs) i = array_get xs i"
proof (cases "0 \<le> i \<and> nat i < length xs")
  case True
  then show ?thesis
    by (cases "xs ! nat i") (simp_all add: array_get_def spread_def)
next
  case False
  then show ?thesis by (auto simp: array_get_def)
qed

lemma array_get_Some:
  "array_get xs i = Some x \<Longrightarrow> 0 \<le> i \<and> nat i < length xs \<and> xs ! nat i = Val x"
  by (auto simp: array_get_def split: if_splits slot.splits)

lemma array_get_dense:
  "dense xs \<Longrightarrow> (array_get xs i \<noteq> None) = (0 \<le> i \<and> i < int (length xs))"
  using dense_map_Val [of xs] by (auto simp: array_get_def split: if_splits)

text \<open>Without holes, \<^verbatim>\<open>filter\<close> sees every index.\<close>

lemma filter_entries_no_hole:
  "Hole \<notin> set xs \<Longrightarrow>
     map (to_slot \<circ> snd) (filter (\<lambda>e. p (fst e)) (entries_from k xs))
       = map snd (filter (\<lambda>e. p (fst e)) (enumerate k xs))"
proof (induction xs arbitrary: k)
  case Nil
  then show ?case by simp
next
  case (Cons x xs)
  then show ?case by (cases x) simp_all
qed

lemma array_filter_index_no_hole:
  "Hole \<notin> set xs \<Longrightarrow>
     array_filter_index p xs = map snd (filter (\<lambda>e. p (fst e)) (enumerate 0 xs))"
  by (simp add: array_filter_index_def entries_def filter_entries_no_hole)

lemma filter_enumerate_remove:
  "i < length ys \<Longrightarrow>
     map snd (filter (\<lambda>e. fst e \<noteq> k + i) (enumerate k ys)) = take i ys @ drop (Suc i) ys"
proof (induction ys arbitrary: k i)
  case Nil
  then show ?case by simp
next
  case (Cons y ys)
  show ?case
  proof (cases i)
    case 0
    have "filter (\<lambda>e. fst e \<noteq> k) (enumerate (Suc k) ys) = enumerate (Suc k) ys"
      by (rule filter_True) (auto simp: in_set_enumerate_eq)
    then show ?thesis using 0 by simp
  next
    case (Suc i')
    then have "i' < length ys" using Cons.prems by simp
    from Cons.IH [OF this, of "Suc k"] show ?thesis using Suc by simp
  qed
qed

lemma delete_in_range:
  assumes "Hole \<notin> set xs" "0 \<le> i" "nat i < length xs"
  shows "array_filter_index (\<lambda>j. int j \<noteq> i) xs = take (nat i) xs @ drop (Suc (nat i)) xs"
proof -
  have "(\<lambda>e. int (fst e) \<noteq> i) = (\<lambda>e :: nat \<times> 'a slot. fst e \<noteq> 0 + nat i)"
    using assms(2) by (auto simp: fun_eq_iff)
  then show ?thesis
    using filter_enumerate_remove [OF assms(3), of 0]
    by (simp add: array_filter_index_no_hole [OF assms(1)])
qed

lemma delete_out_of_range:
  assumes "Hole \<notin> set xs" "i < 0 \<or> int (length xs) \<le> i"
  shows "array_filter_index (\<lambda>j. int j \<noteq> i) xs = xs"
proof -
  have "filter (\<lambda>e. int (fst e) \<noteq> i) (enumerate 0 xs) = enumerate 0 xs"
    using assms(2) by (intro filter_True) (auto simp: in_set_enumerate_eq)
  then show ?thesis by (simp add: array_filter_index_no_hole [OF assms(1)])
qed

text \<open>The run of \<open>staleEdit\<close> and its continuation.\<close>

lemma run_staleEdit: "run integerString initialState staleEdit = Inr sparseState"
  by (simp add: staleEdit_def sparseState_def initialState_def array_get_def array_set_def
      spread_def array_filter_index_def entries_def studentA_def studentB_def array_map_def)




text \<open>
  Claim C7 as stated fails on an array with a hole: the run \<open>staleEdit\<close> ends in a state
  whose students array has length 2 with a hole at index 0, and \<^verbatim>\<open>DELETE_STUDENT(1)\<close> there
  returns the empty array, not one of length 1, since \<^verbatim>\<open>filter\<close> drops the hole as well.
\<close>

theorem reducer_DELETE_STUDENT_counterexample:
  "run integerString initialState staleEdit = Inr sparseState
   \<and> length (students sparseState) = 2
   \<and> reducer integerString sparseState (DELETE_STUDENT 1) = Inr (sparseState\<lparr>students := []\<rparr>)
   \<and> length (students (sparseState\<lparr>students := []\<rparr>)) \<noteq> length (students sparseState) - 1"
  by (simp add: run_staleEdit)
    (simp add: sparseState_def array_filter_index_def entries_def)

text \<open>
  Claim C7, amended. On a students array without holes, of length \<open>len\<close>, and for an index
  \<open>i\<close> from 0 to \<open>len - 1\<close>, \<^verbatim>\<open>DELETE_STUDENT\<close> returns the state with the entry at \<open>i\<close>
  removed from the array: the entries before \<open>i\<close> followed by the entries after it,
  \<open>len - 1\<close> in all; nothing else of the state changes.
\<close>

theorem reducer_DELETE_STUDENT:
  assumes "Hole \<notin> set (students s)" and "0 \<le> i" and "i < int (length (students s))"
  shows "reducer ToString s (DELETE_STUDENT i)
           = Inr (s\<lparr>students := take (nat i) (students s) @ drop (Suc (nat i)) (students s)\<rparr>)
         \<and> length (take (nat i) (students s) @ drop (Suc (nat i)) (students s))
             = length (students s) - 1"
proof -
  have "nat i < length (students s)" using assms(2,3) by simp
  then show ?thesis
    using delete_in_range [OF assms(1,2)] by simp
qed

theorem reducer_DELETE_STUDENT_witness:
  "Hole \<notin> set (map (Val \<circ> named) [''A'', ''B'', ''C'', ''D'', ''E''])
   \<and> (0::int) \<le> 2 \<and> (2::int) < int (length (map (Val \<circ> named) [''A'', ''B'', ''C'', ''D'', ''E'']))
   \<and> reducer integerString
        (initialState\<lparr>students := map (Val \<circ> named) [''A'', ''B'', ''C'', ''D'', ''E'']\<rparr>)
        (DELETE_STUDENT 2)
      = Inr (initialState\<lparr>students := map (Val \<circ> named) [''A'', ''B'', ''D'', ''E'']\<rparr>)"
  using reducer_DELETE_STUDENT [of
      "initialState\<lparr>students := map (Val \<circ> named) [''A'', ''B'', ''C'', ''D'', ''E'']\<rparr>" 2 integerString]
  by simp

text \<open>
  Claim C8 as stated fails on an array with a hole: in the state that the run \<open>staleEdit\<close>
  ends in, index 0 is within the length 2 of the students array, and \<^verbatim>\<open>EDIT_STUDENT(0)\<close>
  throws a \<^verbatim>\<open>TypeError\<close>, so that there is no state to apply \<^verbatim>\<open>UPDATE_STUDENT\<close> to.
\<close>

theorem reducer_EDIT_then_UPDATE_counterexample:
  "run integerString initialState staleEdit = Inr sparseState
   \<and> length (students sparseState) = 2
   \<and> reducer integerString sparseState (EDIT_STUDENT 0) = Inl TypeError"
  by (simp add: run_staleEdit) (simp add: sparseState_def array_get_def)

text \<open>
  Claim C8, amended. For every state and every index \<open>i\<close> at which the students array
  holds a record (on a list of records: every index from 0 to \<open>len - 1\<close>),
  \<^verbatim>\<open>EDIT_STUDENT(i)\<close> followed by \<^verbatim>\<open>UPDATE_STUDENT(r)\<close> returns a state whose array has the
  same length, reads \<open>r\<close> at index \<open>i\<close> and reads as the original at every other index (on a
  list of records it is the list with index \<open>i\<close> replaced); \<open>editIndex\<close> is \<open>i\<close> in between
  and \<^verbatim>\<open>null\<close> at the end, and the draft is empty again.
\<close>

theorem reducer_EDIT_then_UPDATE:
  assumes "array_get (students s) i = Some st"
  shows "\<exists>s1 s2. reducer ToString s (EDIT_STUDENT i) = Inr s1
           \<and> reducer ToString s1 (UPDATE_STUDENT r) = Inr s2
           \<and> editIndex s1 = Some i
           \<and> length (students s2) = length (students s)
           \<and> (\<forall>j. array_get (students s2) j
                  = (if j = i then Some r else array_get (students s) j))
           \<and> (dense (students s) \<longrightarrow> students s2 = (students s)[nat i := Val r])
           \<and> editIndex s2 = None
           \<and> name s2 = [] \<and> age s2 = [] \<and> marks s2 = [Val [], Val [], Val [], Val [], Val []]
           \<and> searchTerm s2 = searchTerm s \<and> sortKey s2 = sortKey s"
proof -
  let ?xs = "students s"
  have i: "0 \<le> i" "nat i < length ?xs"
    using array_get_Some [OF assms] by simp_all
  have set: "array_set (spread ?xs) (Some i) r = (spread ?xs)[nat i := Val r]"
    using i by (simp add: array_set_def)
  have get: "array_get ((spread ?xs)[nat i := Val r]) j
      = (if j = i then Some r else array_get ?xs j)" for j
  proof -
    have "array_get ((spread ?xs)[nat i := Val r]) j
        = (if j = i then Some r else array_get (spread ?xs) j)"
      using i by (auto simp: array_get_def nth_list_update)
    then show ?thesis by simp
  qed
  have "dense ?xs \<longrightarrow> (spread ?xs)[nat i := Val r] = ?xs[nat i := Val r]"
    by (simp add: spread_dense)
  then show ?thesis
    using assms get by (simp add: set numeral_eq_Suc)
qed

theorem reducer_EDIT_then_UPDATE_witness:
  "array_get (students (initialState\<lparr>students := [Val studentA, Val studentB]\<rparr>)) 1 = Some studentB
   \<and> (\<exists>s1. reducer integerString (initialState\<lparr>students := [Val studentA, Val studentB]\<rparr>)
                (EDIT_STUDENT 1) = Inr s1
            \<and> reducer integerString s1 (UPDATE_STUDENT (named ''C''))
                = Inr (initialState\<lparr>students := [Val studentA, Val (named ''C'')]\<rparr>))"
  using reducer_EDIT_then_UPDATE [of "initialState\<lparr>students := [Val studentA, Val studentB]\<rparr>" 1
      studentB integerString "named ''C''"]
  by (auto simp: initialState_def array_get_def array_set_def spread_def numeral_eq_Suc)

text \<open>
  Claim C10 as stated fails on an array with a hole: in the state that the run \<open>staleEdit\<close>
  ends in, the students array has length 2, and \<^verbatim>\<open>DELETE_STUDENT\<close> with the index 5 or -1
  returns an array of length 1, the one record without the hole before it.
\<close>

theorem reducer_DELETE_outside_identity_counterexample:
  "run integerString initialState staleEdit = Inr sparseState
   \<and> length (students sparseState) = 2
   \<and> reducer integerString sparseState (DELETE_STUDENT 5)
      = Inr (sparseState\<lparr>students := [Val studentB]\<rparr>)
   \<and> reducer integerString sparseState (DELETE_STUDENT (- 1))
      = Inr (sparseState\<lparr>students := [Val studentB]\<rparr>)
   \<and> students sparseState \<noteq> [Val studentB]"
  by (simp add: run_staleEdit) (simp add: sparseState_def array_filter_index_def entries_def)

text \<open>
  Claim C10, amended. On a students array without holes, \<^verbatim>\<open>DELETE_STUDENT\<close> with an index
  outside the array, negative or at least its length, returns the state as it is: the
  array is left equal to the original one and nothing is thrown.
\<close>

theorem reducer_DELETE_outside_identity:
  assumes "Hole \<notin> set (students s)" and "i < 0 \<or> int (length (students s)) \<le> i"
  shows "reducer ToString s (DELETE_STUDENT i) = Inr s"
  using delete_out_of_range [OF assms] by simp

theorem reducer_DELETE_outside_identity_witness:
  "Hole \<notin> set (students (initialState\<lparr>students := [Val studentA, Val studentB]\<rparr>))
   \<and> ((- 1 :: int) < 0 \<or> int (length (students (initialState\<lparr>students := [Val studentA, Val studentB]\<rparr>))) \<le> - 1)
   \<and> ((2::int) < 0 \<or> int (length (students (initialState\<lparr>students := [Val studentA, Val studentB]\<rparr>))) \<le> 2)
   \<and> reducer integerString (initialState\<lparr>students := [Val studentA, Val studentB]\<rparr>) (DELETE_STUDENT (- 1))
      = Inr (initialState\<lparr>students := [Val studentA, Val studentB]\<rparr>)
   \<and> reducer integerString (initialState\<lparr>students := [Val studentA, Val studentB]\<rparr>) (DELETE_STUDENT 2)
      = Inr (initialState\<lparr>students := [Val studentA, Val studentB]\<rparr>)"
  using reducer_DELETE_outside_identity [of
      "initialState\<lparr>students := [Val studentA, Val studentB]\<rparr>" "- 1" integerString]
    reducer_DELETE_outside_identity [of
      "initialState\<lparr>students := [Val studentA, Val studentB]\<rparr>" 2 integerString]
  by simp

subsection \<open>Validation and submission\<close>
























subsection \<open>The view pipeline\<close>




lemma name_annotate [simp]: "student.name (annotate st i) = student.name st"
  and division_annotate [simp]: "student.division (annotate st i) = student.division st"
  and percentage_annotate [simp]: "student.percentage (annotate st i) = student.percentage st"
  by (simp_all add: annotate_def)





























subsection \<open>The reducer on a store\<close>

lemma get_state_less: "get_state h p = Some s \<Longrightarrow> p < length h"
  and get_marks_less: "get_marks h p = Some ms \<Longrightarrow> p < length h"
  and get_students_less: "get_students h p = Some xs \<Longrightarrow> p < length h"
  by (auto simp: get_state_def get_marks_def get_students_def split: if_splits)

lemma get_append:
  "p < length h \<Longrightarrow> get_state (h @ h') p = get_state h p"
  "p < length h \<Longrightarrow> get_marks (h @ h') p = get_marks h p"
  "p < length h \<Longrightarrow> get_students (h @ h') p = get_students h p"
  by (simp_all add: get_state_def get_marks_def get_students_def nth_append)

lemma get_new:
  "get_state (h @ StateObj s # h') (length h) = Some s"
  "get_marks (h @ MarksArr ms # h') (length h) = Some ms"
  "get_students (h @ StudentsArr xs # h') (length h) = Some xs"
  by (simp_all add: get_state_def get_marks_def get_students_def)

lemma get_new2:
  "get_marks (h @ x # MarksArr ms # h') (Suc (length h)) = Some ms"
  "get_state (h @ x # StateObj s # h') (Suc (length h)) = Some s"
  "get_state (h @ x # y # StateObj s # h') (Suc (Suc (length h))) = Some s"
  by (simp_all add: get_state_def get_marks_def nth_append)

lemma write_new:
  "write_mark (h @ [MarksArr ms]) (length h) k v = h @ [MarksArr (array_set ms k v)]"
  "write_student (h @ [StudentsArr xs]) (length h) k r = h @ [StudentsArr (array_set xs k r)]"
  by (simp_all add: write_mark_def write_student_def get_new)

lemma state_atD:
  assumes "state_at h p = Some s"
  obtains a where "get_state h p = Some a" "get_marks h (marks a) = Some (marks s)"
    "get_students h (students a) = Some (students s)"
    "name a = name s" "age a = age s" "editIndex a = editIndex s"
    "searchTerm a = searchTerm s" "sortKey a = sortKey s"
  using assms by (auto simp: state_at_def split: option.splits)

lemma state_at_new:
  assumes "get_state h' p' = Some a" "get_marks h' (marks a) = Some ms"
    "get_students h' (students a) = Some xs"
  shows "state_at h' p'
       = Some \<lparr>name = name a, age = age a, marks = ms, students = xs,
                editIndex = editIndex a, searchTerm = searchTerm a, sortKey = sortKey a\<rparr>"
  using assms by (simp add: state_at_def)

lemma set_field_fields:
  "marks (set_field f v a) = marks a" "students (set_field f v a) = students a"
  "editIndex (set_field f v a) = editIndex a"
  by (cases f; simp)+

lemma set_field_state_at:
  assumes "get_marks h (marks a) = Some ms" "get_students h (students a) = Some xs"
  shows "\<lparr>name = name (set_field f v a), age = age (set_field f v a), marks = ms, students = xs,
          editIndex = editIndex (set_field f v a), searchTerm = searchTerm (set_field f v a),
          sortKey = sortKey (set_field f v a)\<rparr>
       = set_field f v \<lparr>name = name a, age = age a, marks = ms, students = xs,
          editIndex = editIndex a, searchTerm = searchTerm a, sortKey = sortKey a\<rparr>"
  by (cases f) simp_all

lemma exampleStore_state:
  "state_at exampleStore 2 = Some (initialState\<lparr>students := [Val studentA, Val studentB]\<rparr>)"
  by (simp add: state_at_def exampleStore_def get_state_def get_marks_def get_students_def
      initialState_def)

text \<open>
  Claim C1 as stated fails in two places. An action of an unrecognized type returns the
  reference it was given, not a fresh aggregate: the store and the reference come back
  as they were. And \<^verbatim>\<open>EDIT_STUDENT\<close> throws although its index is within the length of the
  students array: in the state that the run \<open>staleEdit\<close> ends in, index 0 of the array of
  length 2 is a hole.
\<close>

theorem reducer_store_returns_counterexample:
  "reducer_store integerString exampleStore 2 (OTHER ''RESET'') = Some (Inr (exampleStore, 2))
   \<and> run integerString initialState staleEdit = Inr sparseState
   \<and> length (students sparseState) = 2
   \<and> reducer integerString sparseState (EDIT_STUDENT 0) = Inl TypeError"
  by (simp add: run_staleEdit)
    (simp add: exampleStore_def get_state_def sparseState_def array_get_def)

text \<open>
  Claim C1, amended. For every state aggregate of a store and every action, where for
  \<^verbatim>\<open>EDIT_STUDENT(i)\<close> the students array holds a record at index \<open>i\<close> (on a list of records:
  \<open>i\<close> from 0 to \<open>len - 1\<close>), the reducer returns without throwing, for every payload and,
  in \<^verbatim>\<open>UPDATE_STUDENT\<close>, for every \<open>editIndex\<close>. The returned aggregate denotes the state that
  the reducer on values returns. No object of the store is modified: the old store is a
  prefix of the new one. A recognized action returns a newly allocated aggregate, an
  unrecognized one returns the given aggregate and the given store.
\<close>

theorem reducer_store_returns:
  assumes "state_at h p = Some s" and "action_at h a = Some a'"
    and "\<forall>i. a = EDIT_STUDENT i \<longrightarrow> array_get (students s) i \<noteq> None"
  shows "\<exists>h' p' s'. reducer_store ToString h p a = Some (Inr (h', p'))
           \<and> reducer ToString s a' = Inr s'
           \<and> state_at h' p' = Some s'
           \<and> take (length h) h' = h
           \<and> (recognized a \<longrightarrow> length h \<le> p')
           \<and> (\<not> recognized a \<longrightarrow> h' = h \<and> p' = p)"
proof -
  from assms(1) obtain st where st: "get_state h p = Some st"
      "get_marks h (marks st) = Some (marks s)" "get_students h (students st) = Some (students s)"
      "name st = name s" "age st = age s" "editIndex st = editIndex s"
      "searchTerm st = searchTerm s" "sortKey st = sortKey s"
    by (rule state_atD)
  have lt: "p < length h" "marks st < length h" "students st < length h"
    using st get_state_less get_marks_less get_students_less by blast+
  note simps = alloc_def write_new get_append get_new get_new2 state_at_def st lt
  show ?thesis
  proof (cases a)
    case (SET_FIELD f v)
    then have a': "a' = SET_FIELD f v" using assms(2) by simp
    show ?thesis
      unfolding SET_FIELD a'
      by (cases f) (simp_all add: simps)
  next
    case (SET_MARK i v)
    then have a': "a' = SET_MARK i v" using assms(2) by simp
    show ?thesis
      unfolding SET_MARK a' by (simp add: simps)
  next
    case (SET_STUDENTS payload)
    then obtain xs where xs: "get_students h payload = Some xs" and a': "a' = SET_STUDENTS xs"
      using assms(2) by auto
    have "payload < length h" using xs by (rule get_students_less)
    then show ?thesis
      unfolding SET_STUDENTS a' by (simp add: simps xs)
  next
    case (ADD_STUDENT r)
    then have a': "a' = ADD_STUDENT r" using assms(2) by simp
    show ?thesis
      unfolding ADD_STUDENT a' by (simp add: simps)
  next
    case (UPDATE_STUDENT r)
    then have a': "a' = UPDATE_STUDENT r" using assms(2) by simp
    show ?thesis
      unfolding UPDATE_STUDENT a' by (simp add: simps)
  next
    case (DELETE_STUDENT i)
    then have a': "a' = DELETE_STUDENT i" using assms(2) by simp
    show ?thesis
      unfolding DELETE_STUDENT a' by (simp add: simps)
  next
    case (EDIT_STUDENT i)
    then have a': "a' = EDIT_STUDENT i" using assms(2) by simp
    obtain r where r: "array_get (students s) i = Some r"
      using assms(3) EDIT_STUDENT by auto
    show ?thesis
      unfolding EDIT_STUDENT a' by (simp add: simps r)
  next
    case (OTHER t)
    then have a': "a' = OTHER t" using assms(2) by simp
    show ?thesis
      unfolding OTHER a' using assms(1) by (simp add: st)
  qed
qed

theorem reducer_store_returns_witness:
  "state_at exampleStore 2 = Some (initialState\<lparr>students := [Val studentA, Val studentB]\<rparr>)
   \<and> action_at exampleStore (EDIT_STUDENT 1) = Some (EDIT_STUDENT 1)
   \<and> array_get (students (initialState\<lparr>students := [Val studentA, Val studentB]\<rparr>)) 1 = Some studentB
   \<and> reducer_store integerString exampleStore 2 (EDIT_STUDENT 1)
      = Some (Inr (exampleStore @
           [MarksArr [Val ''40'', Val ''40'', Val ''40'', Val ''40'', Val ''40''],
            StateObj \<lparr>name = ''B'', age = ''21'', marks = 3, students = 1, editIndex = Some 1,
                      searchTerm = [], sortKey = ''name''\<rparr>], 4))"
proof -
  have r: "array_get (students (initialState\<lparr>students := [Val studentA, Val studentB]\<rparr>)) 1
      = Some studentB"
    by (simp add: array_get_def)
  then have "\<forall>i. EDIT_STUDENT 1 = (EDIT_STUDENT i :: nat action) \<longrightarrow>
      array_get (students (initialState\<lparr>students := [Val studentA, Val studentB]\<rparr>)) i \<noteq> None"
    by simp
  from reducer_store_returns [OF exampleStore_state _ this, of "EDIT_STUDENT 1" integerString]
  obtain h' p' where "reducer_store integerString exampleStore 2 (EDIT_STUDENT 1) = Some (Inr (h', p'))"
    "take (length exampleStore) h' = exampleStore"
    by auto
  moreover have "reducer_store integerString exampleStore 2 (EDIT_STUDENT 1)
      = Some (Inr (exampleStore @
           [MarksArr [Val ''40'', Val ''40'', Val ''40'', Val ''40'', Val ''40''],
            StateObj \<lparr>name = ''B'', age = ''21'', marks = 3, students = 1, editIndex = Some 1,
                      searchTerm = [], sortKey = ''name''\<rparr>], 4))"
    by (simp add: exampleStore_def get_state_def get_students_def array_get_def alloc_def
        studentB_def array_map_def integerString_def decDigits.simps [of "numeral k" for k]
        digitChar_values)
  ultimately show ?thesis
    using r exampleStore_state by simp
qed

end
